theory Spec2Isabelle
  imports Main
begin

section \<open>Python strings as the server sees them\<close>

text \<open>
  Header values reach \<^verbatim>\<open>server.py\<close> as Python \<^verbatim>\<open>str\<close> objects decoded from
  Latin-1, so every character is one code point below 256: a \<^typ>\<open>char\<close>.
  \<^verbatim>\<open>str.lower\<close> and \<^verbatim>\<open>str.isspace\<close> are written out for that range.
\<close>

definition lower_char :: "char \<Rightarrow> char" where
  "lower_char c =
     (let n = (of_char c :: nat)
      in if (65 \<le> n \<and> n \<le> 90) \<or> (192 \<le> n \<and> n \<le> 222 \<and> n \<noteq> 215)
         then char_of (n + 32) else c)"

definition lower :: "string \<Rightarrow> string" where
  "lower s = map lower_char s"

definition isspace :: "char \<Rightarrow> bool" where
  "isspace c = ((of_char c :: nat) \<in> {9, 10, 11, 12, 13, 28, 29, 30, 31, 32, 133, 160})"

definition strip :: "string \<Rightarrow> string" where
  "strip s = rev (dropWhile isspace (rev (dropWhile isspace s)))"

definition startswith :: "string \<Rightarrow> string \<Rightarrow> bool" where
  "startswith s p = (take (length p) s = p)"

section \<open>Python values, exceptions and attribute access\<close>

datatype pyval = PyNone | PyStr string

text \<open>Python truthiness of an \<^verbatim>\<open>Optional[str]\<close>: \<^verbatim>\<open>None\<close> and \<^verbatim>\<open>""\<close> are falsy.\<close>

fun truthy :: "pyval \<Rightarrow> bool" where
  "truthy PyNone = False"
| "truthy (PyStr s) = (s \<noteq> [])"

text \<open>An instance of a subclass of \<^verbatim>\<open>Exception\<close>, with its message.\<close>

datatype exn = Exn string

text \<open>
  How an attribute of an object answers \<^verbatim>\<open>hasattr(obj, name)\<close> and
  \<^verbatim>\<open>obj.name\<close>: \<open>NoAttr\<close> is an \<^verbatim>\<open>AttributeError\<close>, so \<^verbatim>\<open>hasattr\<close> is
  \<^verbatim>\<open>False\<close>; \<open>AttrRaises\<close> is any other exception, which \<^verbatim>\<open>hasattr\<close> lets
  through; \<open>Attr\<close> is the value, and \<^verbatim>\<open>hasattr\<close> is \<^verbatim>\<open>True\<close>.
\<close>

datatype 'a attr = NoAttr | AttrRaises exn | Attr 'a

fun raises :: "'a attr \<Rightarrow> bool" where
  "raises (AttrRaises e) = True"
| "raises _ = False"

text \<open>
  A state object is its attribute dictionary, together with what an assignment
  \<^verbatim>\<open>state.name = value\<close> does: \<open>refuses = None\<close> when the object takes the
  attribute, \<open>refuses = Some e\<close> when the assignment raises \<open>e\<close> (a \<^verbatim>\<open>dict\<close>,
  \<^verbatim>\<open>None\<close>, a frozen or slotted object raise \<^verbatim>\<open>AttributeError\<close>). A context
  object is seen through its \<^verbatim>\<open>state\<close> attribute.
\<close>

type_synonym store = "string \<rightharpoonup> pyval"

record state_obj =
  attrs :: store
  refuses :: "exn option"

type_synonym ctx = "state_obj attr"

section \<open>The transport request\<close>

text \<open>
  The request's \<^verbatim>\<open>state\<close> is the framework's \<^verbatim>\<open>State\<close> object, which every
  request has and which takes any attribute: it is its attribute dictionary.
\<close>

record request =
  headers :: "(string \<times> string) list"
  req_state :: store

text \<open>
  \<^verbatim>\<open>request.headers.get(key, default)\<close>: the framework's header mapping compares names
  without regard to case and returns the first match.
\<close>

fun headers_get :: "(string \<times> string) list \<Rightarrow> string \<Rightarrow> string \<Rightarrow> string" where
  "headers_get [] key dflt = dflt"
| "headers_get ((k, v) # hs) key dflt =
     (if lower k = lower key then v else headers_get hs key dflt)"

text \<open>Lines 58-59: the token taken from the \<^verbatim>\<open>Authorization\<close> header, or \<^verbatim>\<open>None\<close>.\<close>

definition bearer_token :: "string \<Rightarrow> string option" where
  "bearer_token auth =
     (if startswith (lower auth) ''bearer '' then Some (strip (drop 7 auth)) else None)"

text \<open>Lines 58-63: the value of \<^verbatim>\<open>token\<close> when the test of line 65 is reached.\<close>

definition extract_token :: "request \<Rightarrow> string" where
  "extract_token req =
     (let auth = headers_get (headers req) ''Authorization'' '''';
          token = bearer_token auth
      in case token of
           None \<Rightarrow> headers_get (headers req) ''X-API-KEY'' ''''
         | Some t \<Rightarrow> if t = [] then headers_get (headers req) ''X-API-KEY'' '''' else t)"

section \<open>The world of one call\<close>

datatype level = DEBUG | INFO | WARNING

text \<open>The calls to \<^verbatim>\<open>logger\<close>, by the message they format.\<close>

datatype log_msg =
    Received_headers "(string \<times> string) list"
  | Method_and_url
  | Bound_to_context string
  | Bound_to_request string
  | No_key_provided
  | Could_not_extract exn
  | Could_not_retrieve exn

text \<open>
  \<open>call_context\<close> is the context object handed to the interceptor and to the tool,
  \<open>http_request\<close> is what \<^verbatim>\<open>get_http_request()\<close> finds (\<open>None\<close>: it raises, as it
  does outside an HTTP call), \<open>ambient_context\<close> is what \<^verbatim>\<open>get_context()\<close> finds
  (\<open>None\<close>: it raises), \<open>logged\<close> collects the \<^verbatim>\<open>logger\<close> calls in order.
\<close>

record world =
  call_context :: ctx
  http_request :: "request option"
  ambient_context :: "ctx option"
  logged :: "(level \<times> log_msg) list"

definition log_to :: "level \<Rightarrow> log_msg \<Rightarrow> world \<Rightarrow> world" where
  "log_to l m w = w\<lparr>logged := logged w @ [(l, m)]\<rparr>"

definition get_http_request :: "world \<Rightarrow> exn + request" where
  "get_http_request w =
     (case http_request w of
        None \<Rightarrow> Inl (Exn ''No active HTTP request found.'')
      | Some r \<Rightarrow> Inr r)"

definition get_context :: "world \<Rightarrow> exn + ctx" where
  "get_context w =
     (case ambient_context w of
        None \<Rightarrow> Inl (Exn ''No active context found.'')
      | Some c \<Rightarrow> Inr c)"

section \<open>\<^verbatim>\<open>AuthMiddleware.on_request\<close>\<close>

text \<open>
  Lines 49-76, the body of the \<^verbatim>\<open>try\<close>: \<open>Inl\<close> is an exception leaving it, with the
  world as it was when the exception was raised; \<open>Inr\<close> is the world at its end. The
  exceptions are those of \<^verbatim>\<open>get_http_request()\<close> (line 51), of
  \<^verbatim>\<open>hasattr(context, 'state')\<close> (line 68) and of the assignment
  \<^verbatim>\<open>context.state.api_key = token\<close> (line 69).
\<close>

definition on_request_try :: "world \<Rightarrow> (exn \<times> world) + world" where
  "on_request_try w =
     (case get_http_request w of
        Inl e \<Rightarrow> Inl (e, w)
      | Inr req \<Rightarrow>
          (let w1 = log_to INFO (Received_headers (headers req)) w;
               w2 = log_to INFO Method_and_url w1;
               token = extract_token req
           in if token \<noteq> [] then
                (case call_context w2 of
                   AttrRaises e \<Rightarrow> Inl (e, w2)
                 | Attr st \<Rightarrow>
                     (case refuses st of
                        Some e \<Rightarrow> Inl (e, w2)
                      | None \<Rightarrow>
                          Inr (log_to INFO (Bound_to_context (take 10 token))
                                (w2\<lparr>call_context :=
                                    Attr (st\<lparr>attrs := (attrs st)(''api_key'' \<mapsto> PyStr token)\<rparr>)\<rparr>)))
                 | NoAttr \<Rightarrow>
                     Inr (log_to INFO (Bound_to_request (take 10 token))
                           (w2\<lparr>http_request :=
                               Some (req\<lparr>req_state := (req_state req)(''api_key'' \<mapsto> PyStr token)\<rparr>)\<rparr>)))
              else Inr (log_to WARNING No_key_provided w2)))"

text \<open>
  Lines 47-83: the \<^verbatim>\<open>except Exception\<close> logs at debug level, and in every case the
  function ends with \<^verbatim>\<open>return await call_next(context)\<close>.
\<close>

definition on_request_state :: "world \<Rightarrow> world" where
  "on_request_state w =
     (case on_request_try w of
        Inl (e, w') \<Rightarrow> log_to DEBUG (Could_not_extract e) w'
      | Inr w' \<Rightarrow> w')"

definition on_request :: "(world \<Rightarrow> 'r) \<Rightarrow> world \<Rightarrow> 'r" where
  "on_request call_next w = call_next (on_request_state w)"

section \<open>\<^verbatim>\<open>get_session_api_key\<close>\<close>

text \<open>Lines 108-109: \<open>Inr None\<close> means the test failed and control falls through.\<close>

fun context_lookup :: "ctx \<Rightarrow> exn + pyval option" where
  "context_lookup NoAttr = Inr None"
| "context_lookup (AttrRaises e) = Inl e"
| "context_lookup (Attr st) = Inr (attrs st ''api_key'')"

text \<open>Lines 113-115.\<close>

definition request_lookup :: "world \<Rightarrow> exn + pyval option" where
  "request_lookup w =
     (case get_http_request w of
        Inl e \<Rightarrow> Inl e
      | Inr req \<Rightarrow> Inr (req_state req ''api_key''))"

text \<open>Lines 121-123.\<close>

definition ambient_lookup :: "world \<Rightarrow> exn + pyval option" where
  "ambient_lookup w =
     (case get_context w of
        Inl e \<Rightarrow> Inl e
      | Inr c \<Rightarrow> context_lookup c)"

text \<open>\<^verbatim>\<open>try: ... except Exception: pass\<close> around a lookup.\<close>

fun except_pass :: "exn + 'a option \<Rightarrow> 'a option" where
  "except_pass (Inl e) = None"
| "except_pass (Inr r) = r"

text \<open>
  Lines 105-125, the body of the outer \<^verbatim>\<open>try\<close>: \<open>Inl\<close> is an exception leaving it,
  \<open>Inr (Some v)\<close> a \<^verbatim>\<open>return v\<close>, \<open>Inr None\<close> reaching its end.
\<close>

definition get_session_api_key_try :: "ctx \<Rightarrow> world \<Rightarrow> exn + pyval option" where
  "get_session_api_key_try context w =
     (case context_lookup context of
        Inl e \<Rightarrow> Inl e
      | Inr (Some v) \<Rightarrow> Inr (Some v)
      | Inr None \<Rightarrow>
          (case except_pass (request_lookup w) of
             Some v \<Rightarrow> Inr (Some v)
           | None \<Rightarrow>
               (case except_pass (ambient_lookup w) of
                  Some v \<Rightarrow> Inr (Some v)
                | None \<Rightarrow> Inr None)))"

text \<open>Lines 103-130: the value returned and the world afterwards.\<close>

definition get_session_api_key :: "ctx \<Rightarrow> world \<Rightarrow> pyval \<times> world" where
  "get_session_api_key context w =
     (case get_session_api_key_try context w of
        Inl e \<Rightarrow> (PyNone, log_to DEBUG (Could_not_retrieve e) w)
      | Inr (Some v) \<Rightarrow> (v, w)
      | Inr None \<Rightarrow> (PyNone, w))"

section \<open>The tools\<close>

type_synonym pydict = "(string \<times> pyval) list"

text \<open>Lines 145-172. \<open>now\<close> is \<^verbatim>\<open>datetime.now().isoformat()\<close>.\<close>

definition example_tool :: "string \<Rightarrow> string \<Rightarrow> world \<Rightarrow> pydict \<times> world" where
  "example_tool now query w =
     (let (api_key, w') = get_session_api_key (call_context w) w
      in if \<not> truthy api_key then
           ([(''error'',
              PyStr ''No API key found. Please authenticate with Authorization: Bearer YOUR_API_KEY'')],
            w')
         else
           ([(''status'', PyStr ''success''),
             (''message'',
              PyStr ''This is a placeholder. Implement your NASA Astronomy Picture of the Day logic here.''),
             (''query'', PyStr query),
             (''timestamp'', PyStr now)],
            w'))"

text \<open>Lines 176-196.\<close>

definition get_api_info :: "world \<Rightarrow> pydict \<times> world" where
  "get_api_info w =
     (let (api_key, w') = get_session_api_key (call_context w) w;
          auth_status = (if truthy api_key then ''authenticated'' else ''not authenticated'')
      in ([(''status'', PyStr ''ready''),
           (''auth_status'', PyStr auth_status),
           (''api_name'', PyStr ''NASA Astronomy Picture of the Day''),
           (''api_url'', PyStr ''https://api.nasa.gov/planetary/apod''),
           (''documentation'', PyStr ''https://api.nasa.gov/''),
           (''description'', PyStr ''Nasa apod api integration for astronomy data''),
           (''authentication'', PyStr ''Bearer token required in Authorization header'')],
          w'))"

section \<open>A call as a whole\<close>

text \<open>
  The credential a tool gets from the resolver when it runs behind the interceptor, on the
  context the interceptor saw.
\<close>

definition resolved_credential :: "world \<Rightarrow> pyval" where
  "resolved_credential w =
     fst (on_request (\<lambda>w'. get_session_api_key (call_context w') w') w)"

text \<open>No credential is bound in the place a context object offers.\<close>

fun unbound :: "ctx \<Rightarrow> bool" where
  "unbound (Attr st) = (attrs st ''api_key'' = None)"
| "unbound _ = True"

text \<open>
  The interceptor can bind a credential on this context: the context has no
  \<^verbatim>\<open>state\<close> attribute (the credential then goes to the request), or it has one that
  can be read and that takes the assignment.
\<close>

fun can_bind :: "ctx \<Rightarrow> bool" where
  "can_bind NoAttr = True"
| "can_bind (AttrRaises e) = False"
| "can_bind (Attr st) = (refuses st = None)"

text \<open>No credential is bound in any of the three places the resolver looks.\<close>

definition no_credential_bound :: "ctx \<Rightarrow> world \<Rightarrow> bool" where
  "no_credential_bound context w =
     (unbound context \<and>
      (case http_request w of None \<Rightarrow> True | Some r \<Rightarrow> req_state r ''api_key'' = None) \<and>
      (case ambient_context w of None \<Rightarrow> True | Some c \<Rightarrow> unbound c))"

section \<open>Sample calls\<close>

text \<open>Concrete requests and worlds, on which the theorems below are exercised.\<close>

definition world_of :: "ctx \<Rightarrow> request option \<Rightarrow> ctx option \<Rightarrow> world" where
  "world_of c r a = \<lparr>call_context = c, http_request = r, ambient_context = a, logged = []\<rparr>"

definition state_of :: "store \<Rightarrow> state_obj" where
  "state_of st = \<lparr>attrs = st, refuses = None\<rparr>"

definition frozen_state :: "store \<Rightarrow> state_obj" where
  "frozen_state st = \<lparr>attrs = st, refuses = Some (Exn ''AttributeError'')\<rparr>"

definition empty_key_request :: request where
  "empty_key_request = \<lparr>headers = [(''X-API-KEY'', '''')], req_state = Map.empty\<rparr>"

definition bearer_request :: request where
  "bearer_request = \<lparr>headers = [(''Authorization'', ''Bearer  abc123  '')], req_state = Map.empty\<rparr>"

definition api_key_request :: request where
  "api_key_request = \<lparr>headers = [(''X-API-KEY'', '' zzz '')], req_state = Map.empty\<rparr>"

definition blank_bearer_request :: request where
  "blank_bearer_request =
     \<lparr>headers = [(''Authorization'', ''Bearer   ''), (''X-API-KEY'', ''k'')], req_state = Map.empty\<rparr>"

definition bare_request :: request where
  "bare_request = \<lparr>headers = [(''Accept'', ''text/event-stream'')], req_state = Map.empty\<rparr>"

definition bound_request :: request where
  "bound_request = \<lparr>headers = [], req_state = [''api_key'' \<mapsto> PyStr ''k'']\<rparr>"

section \<open>Strings\<close>

lemma lower_length [simp]: "length (lower s) = length s"
  by (simp add: lower_def)

lemma lower_append [simp]: "lower (a @ b) = lower a @ lower b"
  by (simp add: lower_def)

text \<open>Trimming a string that is whitespace, a core with no whitespace at its ends, and
  whitespace again leaves the core.\<close>

lemma strip_sandwich:
  assumes "list_all isspace ws1" "list_all isspace ws2" "x \<noteq> []"
    "\<not> isspace (hd x)" "\<not> isspace (last x)"
  shows "strip (ws1 @ x @ ws2) = x"
proof -
  from assms(3,4) have a: "dropWhile isspace (x @ ws2) = x @ ws2"
    by (cases x) auto
  from assms(1) have "dropWhile isspace (ws1 @ x @ ws2) = dropWhile isspace (x @ ws2)"
    by (simp add: list_all_iff)
  with a have b: "dropWhile isspace (ws1 @ x @ ws2) = x @ ws2" by simp
  from assms(3,5) have c: "dropWhile isspace (rev x) = rev x"
    by (cases x rule: rev_cases) auto
  have "dropWhile isspace (rev ws2 @ rev x) = dropWhile isspace (rev x)"
    by (rule dropWhile_append2) (use assms(2) in \<open>simp add: list_all_iff\<close>)
  with c have "dropWhile isspace (rev (x @ ws2)) = rev x" by simp
  with b show ?thesis by (simp add: strip_def)
qed

lemma bearer_prefix:
  assumes "lower p = ''bearer ''"
  shows "startswith (lower (p @ r)) ''bearer ''" and "drop 7 (p @ r) = r"
proof -
  from assms have "length (lower p) = 7" by simp
  then have l: "length p = 7" by simp
  from assms l show "startswith (lower (p @ r)) ''bearer ''"
    by (simp add: startswith_def)
  from l show "drop 7 (p @ r) = r" by simp
qed

section \<open>The token the interceptor extracts\<close>

lemma extract_token_bearer:
  assumes "startswith (lower (headers_get (headers req) ''Authorization'' '''')) ''bearer ''"
    and "strip (drop 7 (headers_get (headers req) ''Authorization'' '''')) \<noteq> []"
  shows "extract_token req = strip (drop 7 (headers_get (headers req) ''Authorization'' ''''))"
  using assms by (simp add: extract_token_def bearer_token_def)

lemma extract_token_blank_bearer:
  assumes "startswith (lower (headers_get (headers req) ''Authorization'' '''')) ''bearer ''"
    and "strip (drop 7 (headers_get (headers req) ''Authorization'' '''')) = []"
  shows "extract_token req = headers_get (headers req) ''X-API-KEY'' ''''"
  using assms by (simp add: extract_token_def bearer_token_def)

lemma extract_token_no_bearer:
  assumes "\<not> startswith (lower (headers_get (headers req) ''Authorization'' '''')) ''bearer ''"
  shows "extract_token req = headers_get (headers req) ''X-API-KEY'' ''''"
  using assms by (simp add: extract_token_def bearer_token_def)

section \<open>What the interceptor writes\<close>

lemma on_request_state_context_store:
  assumes "http_request w = Some req" "extract_token req \<noteq> []" "call_context w = Attr st"
    "refuses st = None"
  shows "call_context (on_request_state w) =
           Attr (st\<lparr>attrs := (attrs st)(''api_key'' \<mapsto> PyStr (extract_token req))\<rparr>)"
    and "http_request (on_request_state w) = http_request w"
    and "ambient_context (on_request_state w) = ambient_context w"
  using assms
  by (simp_all add: on_request_state_def on_request_try_def get_http_request_def log_to_def Let_def)

lemma on_request_state_request_store:
  assumes "http_request w = Some req" "extract_token req \<noteq> []" "call_context w = NoAttr"
  shows "call_context (on_request_state w) = NoAttr"
    and "http_request (on_request_state w) =
           Some (req\<lparr>req_state := (req_state req)(''api_key'' \<mapsto> PyStr (extract_token req))\<rparr>)"
    and "ambient_context (on_request_state w) = ambient_context w"
  using assms
  by (simp_all add: on_request_state_def on_request_try_def get_http_request_def log_to_def Let_def)

lemma on_request_try_failure:
  assumes "on_request_try w = Inl (e, w')"
  shows "call_context w' = call_context w" and "http_request w' = http_request w"
    and "ambient_context w' = ambient_context w"
  using assms
  by (auto simp add: on_request_try_def get_http_request_def log_to_def Let_def
      split: option.splits if_splits attr.splits)

lemma on_request_state_no_write:
  assumes "http_request w = None \<or> (\<exists>req. http_request w = Some req \<and> extract_token req = [])
           \<or> \<not> can_bind (call_context w)"
  shows "call_context (on_request_state w) = call_context w"
    and "http_request (on_request_state w) = http_request w"
    and "ambient_context (on_request_state w) = ambient_context w"
  using assms
  by (auto simp add: on_request_state_def on_request_try_def get_http_request_def log_to_def Let_def
      split: option.splits attr.splits elim: can_bind.elims)

section \<open>Logging does not change what the resolver finds\<close>

lemma request_lookup_log [simp]: "request_lookup (log_to l m w) = request_lookup w"
  by (simp add: request_lookup_def get_http_request_def log_to_def)

lemma ambient_lookup_log [simp]: "ambient_lookup (log_to l m w) = ambient_lookup w"
  by (simp add: ambient_lookup_def get_context_def log_to_def)

lemma try_log_irrelevant:
  "get_session_api_key_try c (log_to l m w) = get_session_api_key_try c w"
  by (simp add: get_session_api_key_try_def cong: sum.case_cong option.case_cong)

lemma resolver_log_irrelevant:
  "fst (get_session_api_key c (log_to l m w)) = fst (get_session_api_key c w)"
  unfolding get_session_api_key_def try_log_irrelevant
  by (simp split: sum.splits option.splits)

lemma resolver_snd:
  "snd (get_session_api_key c w) = w \<or>
   (\<exists>e. snd (get_session_api_key c w) = log_to DEBUG (Could_not_retrieve e) w)"
  unfolding get_session_api_key_def
  by (auto split: sum.splits option.splits)

section \<open>What the resolver finds\<close>

lemma resolver_context_hit:
  "attrs st ''api_key'' = Some v \<Longrightarrow> get_session_api_key (Attr st) w = (v, w)"
  by (simp add: get_session_api_key_def get_session_api_key_try_def)

lemma resolver_context_raises:
  "get_session_api_key_try (AttrRaises e) w = Inl e"
  "get_session_api_key (AttrRaises e) w = (PyNone, log_to DEBUG (Could_not_retrieve e) w)"
  by (simp_all add: get_session_api_key_def get_session_api_key_try_def)

lemma resolver_fall_through:
  assumes "unbound c" "\<not> raises c"
  shows "get_session_api_key c w =
     (case except_pass (request_lookup w) of
        Some v \<Rightarrow> (v, w)
      | None \<Rightarrow> (case except_pass (ambient_lookup w) of Some v \<Rightarrow> (v, w) | None \<Rightarrow> (PyNone, w)))"
  using assms
  by (cases c) (simp_all add: get_session_api_key_def get_session_api_key_try_def split: option.splits)

lemma resolver_request_hit:
  assumes "unbound c" "\<not> raises c" "http_request w = Some r" "req_state r ''api_key'' = Some v"
  shows "get_session_api_key c w = (v, w)"
  using assms
  by (simp add: resolver_fall_through request_lookup_def get_http_request_def)

lemma resolver_absent:
  assumes "no_credential_bound c w"
  shows "fst (get_session_api_key c w) = PyNone"
proof -
  from assms have r: "except_pass (request_lookup w) = None"
    by (simp add: no_credential_bound_def request_lookup_def get_http_request_def
        split: option.splits)
  have u: "except_pass (context_lookup c') = None" if "unbound c'" for c'
    using that by (cases c') simp_all
  from assms have a: "except_pass (ambient_lookup w) = None"
    by (simp add: no_credential_bound_def ambient_lookup_def get_context_def u
        split: option.splits)
  from assms have "unbound c" by (simp add: no_credential_bound_def)
  then show ?thesis
    by (cases c) (simp_all add: get_session_api_key_def get_session_api_key_try_def r a)
qed

section \<open>The interceptor, then the resolver\<close>

lemma resolved_credential_found:
  assumes "http_request w = Some req" "extract_token req \<noteq> []" "can_bind (call_context w)"
  shows "resolved_credential w = PyStr (extract_token req)"
proof (cases "call_context w")
  case NoAttr
  from on_request_state_request_store [OF assms(1,2) NoAttr]
  show ?thesis
    by (simp add: resolved_credential_def on_request_def resolver_request_hit)
next
  case (AttrRaises e)
  with assms(3) show ?thesis by simp
next
  case (Attr st)
  with assms(3) have "refuses st = None" by simp
  from on_request_state_context_store [OF assms(1,2) Attr this]
  show ?thesis
    by (simp add: resolved_credential_def on_request_def resolver_context_hit)
qed

lemma resolved_credential_absent:
  assumes "no_credential_bound (call_context w) w"
    and "http_request w = None \<or> (\<exists>req. http_request w = Some req \<and> extract_token req = [])
         \<or> \<not> can_bind (call_context w)"
  shows "resolved_credential w = PyNone"
proof -
  from on_request_state_no_write [OF assms(2)] assms(1)
  have "no_credential_bound (call_context (on_request_state w)) (on_request_state w)"
    by (simp add: no_credential_bound_def)
  then show ?thesis
    by (simp add: resolved_credential_def on_request_def resolver_absent)
qed

lemma resolved_credential_cases:
  assumes "no_credential_bound (call_context w) w"
  shows "resolved_credential w = PyNone \<or> (\<exists>s. s \<noteq> [] \<and> resolved_credential w = PyStr s)"
proof (cases "http_request w = None \<or> (\<exists>req. http_request w = Some req \<and> extract_token req = [])
         \<or> \<not> can_bind (call_context w)")
  case True
  with assms show ?thesis by (simp add: resolved_credential_absent)
next
  case False
  then obtain req where "http_request w = Some req" "extract_token req \<noteq> []"
    "can_bind (call_context w)"
    by auto
  then show ?thesis by (simp add: resolved_credential_found)
qed

lemma auth_status_value:
  "map_of (fst (get_api_info w)) ''auth_status'' =
     Some (PyStr (if truthy (fst (get_session_api_key (call_context w) w))
                  then ''authenticated'' else ''not authenticated''))"
  by (simp add: get_api_info_def case_prod_unfold Let_def)

section \<open>The sample calls, evaluated\<close>

lemma world_of_fields [simp]:
  "call_context (world_of c r a) = c"
  "http_request (world_of c r a) = r"
  "ambient_context (world_of c r a) = a"
  "logged (world_of c r a) = []"
  by (simp_all add: world_of_def)

lemma state_of_fields [simp]:
  "attrs (state_of st) = st"
  "refuses (state_of st) = None"
  "attrs (frozen_state st) = st"
  "refuses (frozen_state st) = Some (Exn ''AttributeError'')"
  by (simp_all add: state_of_def frozen_state_def)

lemma sample_tokens:
  "extract_token bearer_request = ''abc123''"
  "extract_token api_key_request = '' zzz ''"
  "extract_token blank_bearer_request = ''k''"
  "extract_token bare_request = []"
  "extract_token empty_key_request = []"
  by code_simp+

lemma sample_headers:
  "headers_get (headers bearer_request) ''Authorization'' '''' = ''Bearer  abc123  ''"
  "headers_get (headers api_key_request) ''Authorization'' '''' = []"
  "headers_get (headers api_key_request) ''X-API-KEY'' '''' = '' zzz ''"
  "headers_get (headers blank_bearer_request) ''Authorization'' '''' = ''Bearer   ''"
  "headers_get (headers blank_bearer_request) ''X-API-KEY'' '''' = ''k''"
  "headers_get (headers empty_key_request) ''Authorization'' '''' = []"
  "headers_get (headers empty_key_request) ''X-API-KEY'' ''absent'' = []"
  "headers_get (headers empty_key_request) ''X-API-KEY'' '''' = []"
  by code_simp+

lemma sample_prefixes:
  "startswith (lower ''Bearer  abc123  '') ''bearer ''"
  "startswith (lower ''Bearer   '') ''bearer ''"
  "\<not> startswith (lower []) ''bearer ''"
  "lower ''Bearer '' = ''bearer ''"
  by code_simp+

lemma sample_strips:
  "strip (drop 7 ''Bearer  abc123  '') = ''abc123''"
  "strip (drop 7 ''Bearer   '') = []"
  "strip '' abc123  '' = ''abc123''"
  "strip ''  '' = []"
  by code_simp+

lemma sample_spaces:
  "isspace CHR '' ''" "\<not> isspace CHR ''a''" "\<not> isspace CHR ''3''"
  by code_simp+

section \<open>The resolver is idempotent\<close>

text \<open>
  Claim C8. Calling \<^verbatim>\<open>get_session_api_key\<close> a second time on the same context, in the
  world the first call left behind and with no run of the interceptor in between, returns
  what the first call returned: the same credential, or absence both times. The first
  call writes to no store (the context's, the request's, the ambient context's); at most
  it adds a line to the log.
\<close>

theorem resolver_idempotent:
  "fst (get_session_api_key c (snd (get_session_api_key c w))) = fst (get_session_api_key c w)
   \<and> call_context (snd (get_session_api_key c w)) = call_context w
   \<and> http_request (snd (get_session_api_key c w)) = http_request w
   \<and> ambient_context (snd (get_session_api_key c w)) = ambient_context w"
proof -
  from resolver_snd [of c w] show ?thesis
  proof
    assume "snd (get_session_api_key c w) = w"
    then show ?thesis by simp
  next
    assume "\<exists>e. snd (get_session_api_key c w) = log_to DEBUG (Could_not_retrieve e) w"
    then obtain e where e: "snd (get_session_api_key c w) = log_to DEBUG (Could_not_retrieve e) w" ..
    show ?thesis
      unfolding e resolver_log_irrelevant by (simp add: log_to_def)
  qed
qed

section \<open>The tools without a credential\<close>

text \<open>
  Claim C5. When the resolver reports absence (\<^verbatim>\<open>None\<close>) for the call's context,
  \<^verbatim>\<open>example_tool\<close> returns a dictionary, and that dictionary is exactly
  \<^verbatim>\<open>{"error": ...}\<close>, its message ending with the instruction
  \<^verbatim>\<open>Authorization: Bearer YOUR_API_KEY\<close>. Nothing after the check runs: the result
  has none of the keys of the success path, and the world is the one the resolver left.
\<close>

theorem example_tool_missing_credential:
  "fst (get_session_api_key (call_context w) w) = PyNone \<Longrightarrow>
   example_tool now query w =
     ([(''error'',
        PyStr (''No API key found. Please authenticate with '' @
               ''Authorization: Bearer YOUR_API_KEY''))],
      snd (get_session_api_key (call_context w) w))"
  by (simp add: example_tool_def case_prod_unfold)

theorem example_tool_missing_credential_witness:
  "fst (get_session_api_key
         (call_context \<lparr>call_context = NoAttr, http_request = None, ambient_context = None, logged = []\<rparr>)
         \<lparr>call_context = NoAttr, http_request = None, ambient_context = None, logged = []\<rparr>) = PyNone
   \<and> example_tool ''2026-01-01T00:00:00'' ''moon''
        \<lparr>call_context = NoAttr, http_request = None, ambient_context = None, logged = []\<rparr> =
      ([(''error'',
         PyStr ''No API key found. Please authenticate with Authorization: Bearer YOUR_API_KEY'')],
       \<lparr>call_context = NoAttr, http_request = None, ambient_context = None, logged = []\<rparr>)"
proof -
  let ?w = "\<lparr>call_context = NoAttr, http_request = None, ambient_context = None, logged = []\<rparr>"
  have r: "get_session_api_key (call_context ?w) ?w = (PyNone, ?w)"
    by (simp add: get_session_api_key_def get_session_api_key_try_def request_lookup_def
        ambient_lookup_def get_http_request_def get_context_def)
  then have h: "fst (get_session_api_key (call_context ?w) ?w) = PyNone"
    by simp
  from example_tool_missing_credential [OF h, of "''2026-01-01T00:00:00''" "''moon''"] h r
  show ?thesis by simp
qed

section \<open>The resolver's fallback chain\<close>

text \<open>
  Claim C1, as stated, fails: a context store that holds \<^verbatim>\<open>api_key\<close> with the empty
  string makes the resolver return that empty string, although the next step of the
  chain, the request's store, holds the credential \<^verbatim>\<open>k\<close>. Line 108 tests only that the
  attribute exists.
\<close>

theorem resolver_fallback_chain_counterexample:
  "get_session_api_key (Attr (state_of [''api_key'' \<mapsto> PyStr '''']))
     (world_of (Attr (state_of [''api_key'' \<mapsto> PyStr ''''])) (Some bound_request) None) =
     (PyStr '''', world_of (Attr (state_of [''api_key'' \<mapsto> PyStr ''''])) (Some bound_request) None)
   \<and> except_pass (request_lookup
        (world_of (Attr (state_of [''api_key'' \<mapsto> PyStr ''''])) (Some bound_request) None)) = Some (PyStr ''k'')"
  by (simp add: resolver_context_hit request_lookup_def get_http_request_def bound_request_def)

text \<open>
  Claim C1, amended. For a context whose store holds \<^verbatim>\<open>api_key\<close>, the resolver
  returns the stored value, empty or not, and looks no further. It goes on to the next
  step only when the context offers no value under the key: then the request's store
  decides if it holds the key; then, when there is no request or its store lacks the
  key, the store of the ambient context; and when no place holds the key the result is
  \<^verbatim>\<open>None\<close>. In every case the world is left as it was.
\<close>

theorem resolver_fallback_chain:
  "(attrs st ''api_key'' = Some v \<longrightarrow> get_session_api_key (Attr st) w = (v, w))
   \<and> (unbound c \<and> \<not> raises c \<and> http_request w = Some r \<and> req_state r ''api_key'' = Some v \<longrightarrow>
        get_session_api_key c w = (v, w))
   \<and> (unbound c \<and> \<not> raises c \<and>
       (http_request w = None \<or> (http_request w = Some r \<and> req_state r ''api_key'' = None)) \<and>
       ambient_context w = Some (Attr st') \<and> attrs st' ''api_key'' = Some v \<longrightarrow>
        get_session_api_key c w = (v, w))
   \<and> (\<not> raises c \<and> no_credential_bound c w \<longrightarrow> get_session_api_key c w = (PyNone, w))"
proof (intro conjI impI; (elim conjE)?)
  assume "attrs st ''api_key'' = Some v"
  then show "get_session_api_key (Attr st) w = (v, w)" by (rule resolver_context_hit)
next
  assume "unbound c" "\<not> raises c" "http_request w = Some r" "req_state r ''api_key'' = Some v"
  then show "get_session_api_key c w = (v, w)" by (rule resolver_request_hit)
next
  assume "unbound c" "\<not> raises c"
    "http_request w = None \<or> (http_request w = Some r \<and> req_state r ''api_key'' = None)"
    "ambient_context w = Some (Attr st')" "attrs st' ''api_key'' = Some v"
  then show "get_session_api_key c w = (v, w)"
    by (auto simp add: resolver_fall_through request_lookup_def get_http_request_def
        ambient_lookup_def get_context_def)
next
  assume a: "\<not> raises c" "no_credential_bound c w"
  then have u: "unbound c" by (simp add: no_credential_bound_def)
  from resolver_absent [OF a(2)] resolver_fall_through [OF u a(1), of w]
  show "get_session_api_key c w = (PyNone, w)"
    by (simp split: option.splits)
qed

theorem resolver_fallback_chain_witness:
  "get_session_api_key (Attr (state_of [''api_key'' \<mapsto> PyStr ''abc123'']))
     (world_of (Attr (state_of [''api_key'' \<mapsto> PyStr ''abc123''])) (Some bound_request) None) =
     (PyStr ''abc123'', world_of (Attr (state_of [''api_key'' \<mapsto> PyStr ''abc123''])) (Some bound_request) None)
   \<and> get_session_api_key (Attr (state_of Map.empty)) (world_of (Attr (state_of Map.empty)) (Some bound_request) None) =
     (PyStr ''k'', world_of (Attr (state_of Map.empty)) (Some bound_request) None)
   \<and> get_session_api_key NoAttr
       (world_of NoAttr (Some bare_request) (Some (Attr (state_of [''api_key'' \<mapsto> PyStr ''zzz''])))) =
     (PyStr ''zzz'', world_of NoAttr (Some bare_request) (Some (Attr (state_of [''api_key'' \<mapsto> PyStr ''zzz'']))))
   \<and> get_session_api_key NoAttr (world_of NoAttr (Some bare_request) None) =
     (PyNone, world_of NoAttr (Some bare_request) None)"
proof -
  have 1: "get_session_api_key (Attr (state_of [''api_key'' \<mapsto> PyStr ''abc123'']))
     (world_of (Attr (state_of [''api_key'' \<mapsto> PyStr ''abc123''])) (Some bound_request) None) =
     (PyStr ''abc123'', world_of (Attr (state_of [''api_key'' \<mapsto> PyStr ''abc123''])) (Some bound_request) None)"
    using resolver_fallback_chain [of "state_of [''api_key'' \<mapsto> PyStr ''abc123'']" "PyStr ''abc123''"
        "world_of (Attr (state_of [''api_key'' \<mapsto> PyStr ''abc123''])) (Some bound_request) None"
        NoAttr bound_request "state_of Map.empty"]
    by simp
  have 2: "get_session_api_key (Attr (state_of Map.empty)) (world_of (Attr (state_of Map.empty)) (Some bound_request) None) =
     (PyStr ''k'', world_of (Attr (state_of Map.empty)) (Some bound_request) None)"
    using resolver_fallback_chain [of "state_of Map.empty" "PyStr ''k''"
        "world_of (Attr (state_of Map.empty)) (Some bound_request) None" "Attr (state_of Map.empty)" bound_request "state_of Map.empty"]
    by (simp add: bound_request_def)
  have 3: "get_session_api_key NoAttr
       (world_of NoAttr (Some bare_request) (Some (Attr (state_of [''api_key'' \<mapsto> PyStr ''zzz''])))) =
     (PyStr ''zzz'', world_of NoAttr (Some bare_request) (Some (Attr (state_of [''api_key'' \<mapsto> PyStr ''zzz'']))))"
    using resolver_fallback_chain [of "state_of Map.empty" "PyStr ''zzz''"
        "world_of NoAttr (Some bare_request) (Some (Attr (state_of [''api_key'' \<mapsto> PyStr ''zzz''])))"
        NoAttr bare_request "state_of [''api_key'' \<mapsto> PyStr ''zzz'']"]
    by (simp add: bare_request_def)
  have 4: "get_session_api_key NoAttr (world_of NoAttr (Some bare_request) None) =
     (PyNone, world_of NoAttr (Some bare_request) None)"
    using resolver_fallback_chain [of "state_of Map.empty" PyNone
        "world_of NoAttr (Some bare_request) None" NoAttr bare_request "state_of Map.empty"]
    by (simp add: no_credential_bound_def bare_request_def)
  from 1 2 3 4 show ?thesis by blast
qed

section \<open>Absence, and which failures the resolver swallows where\<close>

text \<open>
  Claim C4, as stated, fails in its second half: the lookup in the context's store has no
  handler of its own. When it raises (a \<^verbatim>\<open>state\<close> attribute whose access raises
  something other than \<^verbatim>\<open>AttributeError\<close>), the outer handler of lines 127-128 ends
  the function with \<^verbatim>\<open>None\<close>, and the request's store, which holds \<^verbatim>\<open>k\<close> here, is
  never tried; with a context that merely lacks the attribute the same world yields
  \<^verbatim>\<open>k\<close>.
\<close>

theorem resolver_absence_counterexample:
  "get_session_api_key (AttrRaises (Exn ''boom''))
     (world_of (AttrRaises (Exn ''boom'')) (Some bound_request) None) =
     (PyNone, log_to DEBUG (Could_not_retrieve (Exn ''boom''))
                (world_of (AttrRaises (Exn ''boom'')) (Some bound_request) None))
   \<and> except_pass (request_lookup
        (world_of (AttrRaises (Exn ''boom'')) (Some bound_request) None)) = Some (PyStr ''k'')
   \<and> fst (get_session_api_key NoAttr
        (world_of (AttrRaises (Exn ''boom'')) (Some bound_request) None)) = PyStr ''k''"
  by (simp add: resolver_context_raises resolver_request_hit [where r = bound_request]
      request_lookup_def get_http_request_def bound_request_def)

text \<open>
  Claim C4, amended. When no credential is bound in any of the three places the resolver
  looks, it returns \<^verbatim>\<open>None\<close>, whatever fails on the way, and no exception leaves it.
  The step on the request and the step on the ambient context each swallow their own
  failure: when \<^verbatim>\<open>get_http_request()\<close> raises, the ambient context is still tried and
  its credential returned; when \<^verbatim>\<open>get_context()\<close> raises, or the ambient context's
  \<^verbatim>\<open>state\<close> does, the result is \<^verbatim>\<open>None\<close>. A failure of the first step, on the
  context's own store, is swallowed by the outer handler instead: it is logged and the
  result is \<^verbatim>\<open>None\<close>, without the later steps being tried.
\<close>

theorem resolver_absence:
  "(no_credential_bound c w \<longrightarrow> fst (get_session_api_key c w) = PyNone)
   \<and> (unbound c \<and> \<not> raises c \<and> http_request w = None \<and>
       ambient_context w = Some (Attr st') \<and> attrs st' ''api_key'' = Some v \<longrightarrow>
        get_session_api_key c w = (v, w))
   \<and> (unbound c \<and> \<not> raises c \<and> except_pass (request_lookup w) = None \<and>
       (ambient_context w = None \<or> ambient_context w = Some (AttrRaises e)) \<longrightarrow>
        get_session_api_key c w = (PyNone, w))
   \<and> get_session_api_key_try (AttrRaises e) w = Inl e
   \<and> get_session_api_key (AttrRaises e) w = (PyNone, log_to DEBUG (Could_not_retrieve e) w)"
proof (intro conjI impI; (elim conjE)?)
  assume "no_credential_bound c w"
  then show "fst (get_session_api_key c w) = PyNone" by (rule resolver_absent)
next
  assume "unbound c" "\<not> raises c" "http_request w = None"
    "ambient_context w = Some (Attr st')" "attrs st' ''api_key'' = Some v"
  then show "get_session_api_key c w = (v, w)"
    by (simp add: resolver_fall_through request_lookup_def get_http_request_def
        ambient_lookup_def get_context_def)
next
  assume "unbound c" "\<not> raises c" "except_pass (request_lookup w) = None"
    "ambient_context w = None \<or> ambient_context w = Some (AttrRaises e)"
  then show "get_session_api_key c w = (PyNone, w)"
    by (auto simp add: resolver_fall_through ambient_lookup_def get_context_def)
qed (simp_all add: resolver_context_raises)

theorem resolver_absence_witness:
  "no_credential_bound (AttrRaises (Exn ''boom''))
     (world_of (AttrRaises (Exn ''boom'')) None (Some (AttrRaises (Exn ''bang''))))
   \<and> fst (get_session_api_key (AttrRaises (Exn ''boom''))
        (world_of (AttrRaises (Exn ''boom'')) None (Some (AttrRaises (Exn ''bang''))))) = PyNone
   \<and> get_session_api_key NoAttr (world_of NoAttr None (Some (Attr (state_of [''api_key'' \<mapsto> PyStr ''zzz''])))) =
     (PyStr ''zzz'', world_of NoAttr None (Some (Attr (state_of [''api_key'' \<mapsto> PyStr ''zzz'']))))
   \<and> get_session_api_key NoAttr (world_of NoAttr None (Some (AttrRaises (Exn ''bang'')))) =
     (PyNone, world_of NoAttr None (Some (AttrRaises (Exn ''bang''))))
   \<and> get_session_api_key NoAttr (world_of NoAttr None None) = (PyNone, world_of NoAttr None None)"
proof -
  have h: "no_credential_bound (AttrRaises (Exn ''boom''))
     (world_of (AttrRaises (Exn ''boom'')) None (Some (AttrRaises (Exn ''bang''))))"
    by (simp add: no_credential_bound_def)
  have r: "except_pass (request_lookup (world_of NoAttr None a)) = None" for a
    by (simp add: request_lookup_def get_http_request_def)
  have 1: "fst (get_session_api_key (AttrRaises (Exn ''boom''))
        (world_of (AttrRaises (Exn ''boom'')) None (Some (AttrRaises (Exn ''bang''))))) = PyNone"
    using h resolver_absence [of "AttrRaises (Exn ''boom'')"
        "world_of (AttrRaises (Exn ''boom'')) None (Some (AttrRaises (Exn ''bang'')))"
        "state_of Map.empty" PyNone "Exn ''bang''"]
    by blast
  have 2: "get_session_api_key NoAttr (world_of NoAttr None (Some (Attr (state_of [''api_key'' \<mapsto> PyStr ''zzz''])))) =
     (PyStr ''zzz'', world_of NoAttr None (Some (Attr (state_of [''api_key'' \<mapsto> PyStr ''zzz'']))))"
    using resolver_absence [of NoAttr
        "world_of NoAttr None (Some (Attr (state_of [''api_key'' \<mapsto> PyStr ''zzz''])))"
        "state_of [''api_key'' \<mapsto> PyStr ''zzz'']" "PyStr ''zzz''" "Exn ''bang''"]
    by simp
  have 3: "get_session_api_key NoAttr (world_of NoAttr None (Some (AttrRaises (Exn ''bang'')))) =
     (PyNone, world_of NoAttr None (Some (AttrRaises (Exn ''bang''))))"
    using r resolver_absence [of NoAttr "world_of NoAttr None (Some (AttrRaises (Exn ''bang'')))"
        "state_of Map.empty" PyNone "Exn ''bang''"]
    by simp
  have 4: "get_session_api_key NoAttr (world_of NoAttr None None) = (PyNone, world_of NoAttr None None)"
    using r resolver_absence [of NoAttr "world_of NoAttr None None" "state_of Map.empty" PyNone "Exn ''bang''"]
    by simp
  from h 1 2 3 4 show ?thesis by blast
qed

section \<open>The bearer token\<close>

text \<open>
  Claim C2, as stated, fails: the header \<^verbatim>\<open>Authorization: Bearer\<close> followed by
  spaces only starts with the prefix, and what follows the prefix trims to the empty
  string; with \<^verbatim>\<open>X-API-KEY: k\<close> beside it the interceptor's credential is \<^verbatim>\<open>k\<close>,
  which is also what the resolver then returns.
\<close>

theorem bearer_credential_counterexample:
  "startswith (lower (headers_get (headers blank_bearer_request) ''Authorization'' '''')) ''bearer ''
   \<and> strip (drop 7 (headers_get (headers blank_bearer_request) ''Authorization'' '''')) = []
   \<and> extract_token blank_bearer_request = ''k''
   \<and> resolved_credential (world_of (Attr (state_of Map.empty)) (Some blank_bearer_request) None) = PyStr ''k''"
proof -
  have "resolved_credential (world_of (Attr (state_of Map.empty)) (Some blank_bearer_request) None) =
      PyStr (extract_token blank_bearer_request)"
    by (rule resolved_credential_found) (simp_all add: sample_tokens)
  then show ?thesis
    by (simp add: sample_tokens sample_headers sample_prefixes sample_strips)
qed

text \<open>
  Claim C2, amended. When the \<^verbatim>\<open>Authorization\<close> value starts, in any mix of case,
  with \<^verbatim>\<open>bearer\<close> and a space, and what follows those 7 characters does not trim to
  the empty string, the interceptor's credential is what follows, trimmed. When the
  interceptor can bind it (the context has no \<^verbatim>\<open>state\<close> attribute, or has one that
  can be read and takes the assignment), the resolver behind the interceptor returns
  exactly it. In particular, for a value made of the prefix, whitespace, a token \<open>x\<close>
  with no whitespace at its ends, and whitespace, the credential is \<open>x\<close>. When the
  interceptor cannot bind, nothing is bound, and a call that began with no credential
  bound resolves to \<^verbatim>\<open>None\<close>.
\<close>

theorem bearer_credential:
  "(startswith (lower (headers_get (headers req) ''Authorization'' '''')) ''bearer '' \<and>
    strip (drop 7 (headers_get (headers req) ''Authorization'' '''')) \<noteq> [] \<longrightarrow>
      extract_token req = strip (drop 7 (headers_get (headers req) ''Authorization'' '''')) \<and>
      (http_request w = Some req \<and> can_bind (call_context w) \<longrightarrow>
         resolved_credential w =
           PyStr (strip (drop 7 (headers_get (headers req) ''Authorization'' '''')))))
   \<and>
   (headers_get (headers req) ''Authorization'' '''' = p @ ws1 @ x @ ws2 \<and>
    lower p = ''bearer '' \<and> list_all isspace ws1 \<and> list_all isspace ws2 \<and>
    x \<noteq> [] \<and> \<not> isspace (hd x) \<and> \<not> isspace (last x) \<longrightarrow>
      extract_token req = x \<and>
      (http_request w = Some req \<and> can_bind (call_context w) \<longrightarrow>
         resolved_credential w = PyStr x))
   \<and>
   (\<not> can_bind (call_context w) \<and> no_credential_bound (call_context w) w \<longrightarrow>
      resolved_credential w = PyNone)"
proof (intro conjI impI; (elim conjE)?)
  assume a: "startswith (lower (headers_get (headers req) ''Authorization'' '''')) ''bearer ''"
    "strip (drop 7 (headers_get (headers req) ''Authorization'' '''')) \<noteq> []"
  from extract_token_bearer [OF a]
  show t: "extract_token req = strip (drop 7 (headers_get (headers req) ''Authorization'' ''''))" .
  assume "http_request w = Some req" "can_bind (call_context w)"
  with a(2) t show "resolved_credential w =
      PyStr (strip (drop 7 (headers_get (headers req) ''Authorization'' '''')))"
    by (simp add: resolved_credential_found)
next
  assume b: "headers_get (headers req) ''Authorization'' '''' = p @ ws1 @ x @ ws2"
    "lower p = ''bearer ''" "list_all isspace ws1" "list_all isspace ws2"
    "x \<noteq> []" "\<not> isspace (hd x)" "\<not> isspace (last x)"
  from b(3-7) have s: "strip (ws1 @ x @ ws2) = x" by (rule strip_sandwich)
  from bearer_prefix [OF b(2), of "ws1 @ x @ ws2"] b(1) s b(5)
  have "startswith (lower (headers_get (headers req) ''Authorization'' '''')) ''bearer ''"
    "strip (drop 7 (headers_get (headers req) ''Authorization'' '''')) = x"
    by simp_all
  with b(5) show t: "extract_token req = x"
    by (simp add: extract_token_bearer)
  assume "http_request w = Some req" "can_bind (call_context w)"
  with b(5) t show "resolved_credential w = PyStr x"
    by (simp add: resolved_credential_found)
next
  assume "\<not> can_bind (call_context w)" "no_credential_bound (call_context w) w"
  then show "resolved_credential w = PyNone"
    by (simp add: resolved_credential_absent)
qed

theorem bearer_credential_witness:
  "startswith (lower (headers_get (headers bearer_request) ''Authorization'' '''')) ''bearer ''
   \<and> headers_get (headers bearer_request) ''Authorization'' '''' =
       ''Bearer '' @ '' '' @ ''abc123'' @ ''  ''
   \<and> lower ''Bearer '' = ''bearer ''
   \<and> extract_token bearer_request = ''abc123''
   \<and> resolved_credential (world_of NoAttr (Some bearer_request) None) = PyStr ''abc123''
   \<and> resolved_credential (world_of (Attr (state_of Map.empty)) (Some bearer_request) None) = PyStr ''abc123''
   \<and> resolved_credential (world_of (Attr (frozen_state Map.empty)) (Some bearer_request) None) = PyNone"
proof -
  have a: "startswith (lower (headers_get (headers bearer_request) ''Authorization'' '''')) ''bearer ''"
    and n: "strip (drop 7 (headers_get (headers bearer_request) ''Authorization'' '''')) = ''abc123''"
    and d: "headers_get (headers bearer_request) ''Authorization'' '''' =
       ''Bearer '' @ '' '' @ ''abc123'' @ ''  ''"
    by (simp_all add: sample_headers sample_prefixes sample_strips)
  have sp: "list_all isspace '' ''" "list_all isspace ''  ''"
    "\<not> isspace (hd ''abc123'')" "\<not> isspace (last ''abc123'')"
    by (simp_all add: sample_spaces)
  have 1: "extract_token bearer_request = ''abc123'' \<and>
      resolved_credential (world_of NoAttr (Some bearer_request) None) = PyStr ''abc123''"
    using a n bearer_credential [of bearer_request "world_of NoAttr (Some bearer_request) None"
        "''Bearer ''" "'' ''" "''abc123''" "''  ''"]
    by simp
  have 2: "resolved_credential (world_of (Attr (state_of Map.empty)) (Some bearer_request) None) = PyStr ''abc123''"
    using d sp sample_prefixes(4)
      bearer_credential [of bearer_request "world_of (Attr (state_of Map.empty)) (Some bearer_request) None"
        "''Bearer ''" "'' ''" "''abc123''" "''  ''"]
    by simp
  have 3: "resolved_credential (world_of (Attr (frozen_state Map.empty)) (Some bearer_request) None) = PyNone"
    using bearer_credential [of bearer_request
        "world_of (Attr (frozen_state Map.empty)) (Some bearer_request) None"
        "''Bearer ''" "'' ''" "''abc123''" "''  ''"]
    by (simp add: no_credential_bound_def bearer_request_def)
  from a d sample_prefixes(4) 1 2 3 show ?thesis by blast
qed

section \<open>The \<^verbatim>\<open>X-API-KEY\<close> header\<close>

text \<open>
  Claim C3, as stated, fails. A request that carries \<^verbatim>\<open>X-API-KEY\<close> with the empty
  value and no \<^verbatim>\<open>Authorization\<close> leaves nothing bound: the resolved credential is
  \<^verbatim>\<open>None\<close>, not the empty string. And with \<^verbatim>\<open>X-API-KEY\<close> holding \<^verbatim>\<open>zzz\<close>
  between spaces, on a context whose \<^verbatim>\<open>state\<close> refuses the assignment of line 69,
  the exception is swallowed, nothing is bound, and the resolved credential is
  \<^verbatim>\<open>None\<close> again.
\<close>

theorem api_key_header_credential_counterexample:
  "\<not> startswith (lower (headers_get (headers empty_key_request) ''Authorization'' '''')) ''bearer ''
   \<and> headers_get (headers empty_key_request) ''X-API-KEY'' ''absent'' = []
   \<and> resolved_credential (world_of NoAttr (Some empty_key_request) None) = PyNone
   \<and> \<not> startswith (lower (headers_get (headers api_key_request) ''Authorization'' '''')) ''bearer ''
   \<and> headers_get (headers api_key_request) ''X-API-KEY'' '''' = '' zzz ''
   \<and> resolved_credential (world_of (Attr (frozen_state Map.empty)) (Some api_key_request) None) = PyNone"
proof -
  have 1: "resolved_credential (world_of NoAttr (Some empty_key_request) None) = PyNone"
    by (rule resolved_credential_absent)
      (simp_all add: no_credential_bound_def sample_tokens, simp add: empty_key_request_def)
  have 2: "resolved_credential (world_of (Attr (frozen_state Map.empty)) (Some api_key_request) None) = PyNone"
    by (rule resolved_credential_absent)
      (simp_all add: no_credential_bound_def, simp add: api_key_request_def)
  from 1 2 show ?thesis
    by (simp add: sample_headers sample_prefixes)
qed

text \<open>
  Claim C3, amended. When the \<^verbatim>\<open>Authorization\<close> value is missing or does not start
  with the bearer prefix, the interceptor's token is the value \<open>y\<close> of
  \<^verbatim>\<open>X-API-KEY\<close> as it stands, untrimmed. When \<open>y\<close> is not empty and the interceptor
  can bind it (the context has no \<^verbatim>\<open>state\<close> attribute, or has one that can be read
  and takes the assignment), the resolver behind the interceptor returns exactly \<open>y\<close>,
  surrounding whitespace included. When \<open>y\<close> is empty or the interceptor cannot bind,
  nothing is bound, and a call that began with no credential bound resolves to
  \<^verbatim>\<open>None\<close>.
\<close>

theorem api_key_header_credential:
  "\<not> startswith (lower (headers_get (headers req) ''Authorization'' '''')) ''bearer '' \<Longrightarrow>
   headers_get (headers req) ''X-API-KEY'' '''' = y \<Longrightarrow>
   extract_token req = y \<and>
   (y \<noteq> [] \<and> http_request w = Some req \<and> can_bind (call_context w) \<longrightarrow>
      resolved_credential w = PyStr y) \<and>
   (http_request w = Some req \<and> (y = [] \<or> \<not> can_bind (call_context w)) \<and>
    no_credential_bound (call_context w) w \<longrightarrow>
      resolved_credential w = PyNone)"
proof -
  assume a: "\<not> startswith (lower (headers_get (headers req) ''Authorization'' '''')) ''bearer ''"
    and y: "headers_get (headers req) ''X-API-KEY'' '''' = y"
  from a y have t: "extract_token req = y"
    by (simp add: extract_token_no_bearer)
  show ?thesis
  proof (intro conjI impI; (elim conjE)?)
    show "extract_token req = y" by (rule t)
  next
    assume "y \<noteq> []" "http_request w = Some req" "can_bind (call_context w)"
    with t show "resolved_credential w = PyStr y"
      by (simp add: resolved_credential_found)
  next
    assume b: "http_request w = Some req" "y = [] \<or> \<not> can_bind (call_context w)"
      "no_credential_bound (call_context w) w"
    from b(1,2) t have "http_request w = None \<or>
        (\<exists>req. http_request w = Some req \<and> extract_token req = []) \<or> \<not> can_bind (call_context w)"
      by auto
    with b(3) show "resolved_credential w = PyNone"
      by (rule resolved_credential_absent)
  qed
qed

theorem api_key_header_credential_witness:
  "\<not> startswith (lower (headers_get (headers api_key_request) ''Authorization'' '''')) ''bearer ''
   \<and> headers_get (headers api_key_request) ''X-API-KEY'' '''' = '' zzz ''
   \<and> extract_token api_key_request = '' zzz ''
   \<and> resolved_credential (world_of NoAttr (Some api_key_request) None) = PyStr '' zzz ''
   \<and> resolved_credential (world_of (Attr (state_of Map.empty)) (Some api_key_request) None) = PyStr '' zzz ''
   \<and> resolved_credential (world_of (AttrRaises (Exn ''boom'')) (Some api_key_request) None) = PyNone"
proof -
  have a: "\<not> startswith (lower (headers_get (headers api_key_request) ''Authorization'' '''')) ''bearer ''"
    and y: "headers_get (headers api_key_request) ''X-API-KEY'' '''' = '' zzz ''"
    by (simp_all add: sample_headers sample_prefixes)
  have 1: "extract_token api_key_request = '' zzz '' \<and>
      resolved_credential (world_of NoAttr (Some api_key_request) None) = PyStr '' zzz ''"
    using api_key_header_credential [OF a y, of "world_of NoAttr (Some api_key_request) None"]
    by simp
  have 2: "resolved_credential (world_of (Attr (state_of Map.empty)) (Some api_key_request) None) = PyStr '' zzz ''"
    using api_key_header_credential [OF a y, of "world_of (Attr (state_of Map.empty)) (Some api_key_request) None"]
    by simp
  have 3: "resolved_credential (world_of (AttrRaises (Exn ''boom'')) (Some api_key_request) None) = PyNone"
    using api_key_header_credential [OF a y,
        of "world_of (AttrRaises (Exn ''boom'')) (Some api_key_request) None"]
    by (simp add: no_credential_bound_def api_key_request_def)
  from a y 1 2 3 show ?thesis by blast
qed

section \<open>A bearer header with nothing after the prefix\<close>

text \<open>
  Claim C10. When the \<^verbatim>\<open>Authorization\<close> value starts with the bearer prefix and what
  follows trims to the empty string, the interceptor's credential is the value of
  \<^verbatim>\<open>X-API-KEY\<close>, the same one as for any request \<open>req'\<close> whose \<^verbatim>\<open>Authorization\<close>
  does not match and whose \<^verbatim>\<open>X-API-KEY\<close> is the same. The blank token is never
  stored: with an empty \<^verbatim>\<open>X-API-KEY\<close>, or a context on which the interceptor cannot
  bind, no store changes, and otherwise the value written under \<^verbatim>\<open>api_key\<close> is that
  of \<^verbatim>\<open>X-API-KEY\<close>.
\<close>

theorem blank_bearer_falls_back:
  assumes "startswith (lower (headers_get (headers req) ''Authorization'' '''')) ''bearer ''"
    and "strip (drop 7 (headers_get (headers req) ''Authorization'' '''')) = []"
  shows "extract_token req = headers_get (headers req) ''X-API-KEY'' ''''
   \<and> (\<not> startswith (lower (headers_get (headers req') ''Authorization'' '''')) ''bearer '' \<and>
       headers_get (headers req') ''X-API-KEY'' '''' = headers_get (headers req) ''X-API-KEY'' '''' \<longrightarrow>
         extract_token req' = extract_token req)
   \<and> (http_request w = Some req \<and> headers_get (headers req) ''X-API-KEY'' '''' = [] \<longrightarrow>
         call_context (on_request_state w) = call_context w \<and>
         http_request (on_request_state w) = http_request w)
   \<and> (http_request w = Some req \<and> \<not> can_bind (call_context w) \<longrightarrow>
         call_context (on_request_state w) = call_context w \<and>
         http_request (on_request_state w) = http_request w)
   \<and> (http_request w = Some req \<and> headers_get (headers req) ''X-API-KEY'' '''' \<noteq> [] \<and>
       call_context w = Attr st \<and> refuses st = None \<longrightarrow>
         call_context (on_request_state w) =
           Attr (st\<lparr>attrs :=
                  (attrs st)(''api_key'' \<mapsto> PyStr (headers_get (headers req) ''X-API-KEY'' ''''))\<rparr>) \<and>
         http_request (on_request_state w) = http_request w)
   \<and> (http_request w = Some req \<and> headers_get (headers req) ''X-API-KEY'' '''' \<noteq> [] \<and>
       call_context w = NoAttr \<longrightarrow>
         call_context (on_request_state w) = NoAttr \<and>
         http_request (on_request_state w) =
           Some (req\<lparr>req_state :=
                  (req_state req)(''api_key'' \<mapsto> PyStr (headers_get (headers req) ''X-API-KEY'' ''''))\<rparr>))"
proof -
  from assms have t: "extract_token req = headers_get (headers req) ''X-API-KEY'' ''''"
    by (rule extract_token_blank_bearer)
  show ?thesis
  proof (intro conjI impI; (elim conjE)?)
    show "extract_token req = headers_get (headers req) ''X-API-KEY'' ''''" by (rule t)
  next
    assume "\<not> startswith (lower (headers_get (headers req') ''Authorization'' '''')) ''bearer ''"
      "headers_get (headers req') ''X-API-KEY'' '''' = headers_get (headers req) ''X-API-KEY'' ''''"
    then show "extract_token req' = extract_token req"
      by (simp add: t extract_token_no_bearer)
  next
    assume a: "http_request w = Some req" "headers_get (headers req) ''X-API-KEY'' '''' = []"
    then have "http_request w = None \<or> (\<exists>req. http_request w = Some req \<and> extract_token req = [])
        \<or> \<not> can_bind (call_context w)"
      by (simp add: t)
    then show "call_context (on_request_state w) = call_context w"
      and "http_request (on_request_state w) = http_request w"
      by (rule on_request_state_no_write)+
  next
    assume "http_request w = Some req" "\<not> can_bind (call_context w)"
    then have "http_request w = None \<or> (\<exists>req. http_request w = Some req \<and> extract_token req = [])
        \<or> \<not> can_bind (call_context w)"
      by simp
    then show "call_context (on_request_state w) = call_context w"
      and "http_request (on_request_state w) = http_request w"
      by (rule on_request_state_no_write)+
  next
    assume a: "http_request w = Some req" "headers_get (headers req) ''X-API-KEY'' '''' \<noteq> []"
      "call_context w = Attr st" "refuses st = None"
    from a(2) have n: "extract_token req \<noteq> []" by (simp add: t)
    from on_request_state_context_store [OF a(1) n a(3,4)]
    show "call_context (on_request_state w) =
        Attr (st\<lparr>attrs :=
               (attrs st)(''api_key'' \<mapsto> PyStr (headers_get (headers req) ''X-API-KEY'' ''''))\<rparr>)"
      and "http_request (on_request_state w) = http_request w"
      by (simp_all add: t)
  next
    assume a: "http_request w = Some req" "headers_get (headers req) ''X-API-KEY'' '''' \<noteq> []"
      "call_context w = NoAttr"
    from a(2) have n: "extract_token req \<noteq> []" by (simp add: t)
    from on_request_state_request_store [OF a(1) n a(3)]
    show "call_context (on_request_state w) = NoAttr"
      and "http_request (on_request_state w) =
        Some (req\<lparr>req_state :=
               (req_state req)(''api_key'' \<mapsto> PyStr (headers_get (headers req) ''X-API-KEY'' ''''))\<rparr>)"
      by (simp_all add: t)
  qed
qed

theorem blank_bearer_falls_back_witness:
  "startswith (lower (headers_get (headers blank_bearer_request) ''Authorization'' '''')) ''bearer ''
   \<and> strip (drop 7 (headers_get (headers blank_bearer_request) ''Authorization'' '''')) = []
   \<and> extract_token blank_bearer_request = ''k''
   \<and> call_context (on_request_state (world_of (Attr (state_of Map.empty)) (Some blank_bearer_request) None)) =
       Attr (state_of [''api_key'' \<mapsto> PyStr ''k''])"
proof -
  have a: "startswith (lower (headers_get (headers blank_bearer_request) ''Authorization'' '''')) ''bearer ''"
    and b: "strip (drop 7 (headers_get (headers blank_bearer_request) ''Authorization'' '''')) = []"
    by (simp_all add: sample_headers sample_prefixes sample_strips)
  from blank_bearer_falls_back [OF a b, of api_key_request
      "world_of (Attr (state_of Map.empty)) (Some blank_bearer_request) None" "state_of Map.empty"] a b
  show ?thesis by (simp add: sample_headers state_of_def)
qed

section \<open>Where the interceptor writes the credential\<close>

text \<open>
  Claim C7, as stated, fails: with the non-empty credential \<^verbatim>\<open>k\<close> extracted and a
  context that has no \<^verbatim>\<open>state\<close> attribute, nothing is written into the context; the
  \<^verbatim>\<open>else\<close> of lines 71-74 writes it into the request's state instead.
\<close>

theorem credential_write_counterexample:
  "extract_token blank_bearer_request = ''k''
   \<and> call_context (on_request_state (world_of NoAttr (Some blank_bearer_request) None)) = NoAttr
   \<and> map_option (\<lambda>r. req_state r ''api_key'')
        (http_request (on_request_state (world_of NoAttr (Some blank_bearer_request) None))) =
      Some (Some (PyStr ''k''))"
proof -
  have "http_request (world_of NoAttr (Some blank_bearer_request) None) = Some blank_bearer_request"
    "extract_token blank_bearer_request \<noteq> []"
    "call_context (world_of NoAttr (Some blank_bearer_request) None) = NoAttr"
    by (simp_all add: sample_tokens)
  from on_request_state_request_store [OF this] show ?thesis
    by (simp add: sample_tokens)
qed

text \<open>
  Claim C7, amended. The interceptor writes under \<^verbatim>\<open>api_key\<close> exactly when it
  extracted a non-empty credential and can bind it, and then in one place only: into the
  context's store when the context has a \<^verbatim>\<open>state\<close> attribute that can be read and
  takes the assignment, into the request's state when the context has no \<^verbatim>\<open>state\<close>
  attribute. When reading the context's \<^verbatim>\<open>state\<close> raises, or the state object
  refuses the assignment, the exception is swallowed and nothing is written anywhere.
  With no request at hand or an empty credential, no store changes either.
\<close>

theorem credential_write:
  "(http_request w = Some req \<and> extract_token req \<noteq> [] \<and> call_context w = Attr st \<and>
    refuses st = None \<longrightarrow>
      call_context (on_request_state w) =
        Attr (st\<lparr>attrs := (attrs st)(''api_key'' \<mapsto> PyStr (extract_token req))\<rparr>) \<and>
      http_request (on_request_state w) = http_request w \<and>
      ambient_context (on_request_state w) = ambient_context w)
   \<and> (http_request w = Some req \<and> extract_token req \<noteq> [] \<and> call_context w = NoAttr \<longrightarrow>
      call_context (on_request_state w) = NoAttr \<and>
      http_request (on_request_state w) =
        Some (req\<lparr>req_state := (req_state req)(''api_key'' \<mapsto> PyStr (extract_token req))\<rparr>) \<and>
      ambient_context (on_request_state w) = ambient_context w)
   \<and> (http_request w = None \<or> (http_request w = Some req \<and> extract_token req = []) \<or>
       \<not> can_bind (call_context w) \<longrightarrow>
      call_context (on_request_state w) = call_context w \<and>
      http_request (on_request_state w) = http_request w \<and>
      ambient_context (on_request_state w) = ambient_context w)"
proof (intro conjI impI; (elim conjE)?)
  assume a: "http_request w = Some req" "extract_token req \<noteq> []" "call_context w = Attr st"
    "refuses st = None"
  from on_request_state_context_store [OF a]
  show "call_context (on_request_state w) =
      Attr (st\<lparr>attrs := (attrs st)(''api_key'' \<mapsto> PyStr (extract_token req))\<rparr>)"
    and "http_request (on_request_state w) = http_request w"
    and "ambient_context (on_request_state w) = ambient_context w" .
next
  assume a: "http_request w = Some req" "extract_token req \<noteq> []" "call_context w = NoAttr"
  from on_request_state_request_store [OF a]
  show "call_context (on_request_state w) = NoAttr"
    and "http_request (on_request_state w) =
        Some (req\<lparr>req_state := (req_state req)(''api_key'' \<mapsto> PyStr (extract_token req))\<rparr>)"
    and "ambient_context (on_request_state w) = ambient_context w" .
next
  assume "http_request w = None \<or> (http_request w = Some req \<and> extract_token req = []) \<or>
      \<not> can_bind (call_context w)"
  then have "http_request w = None \<or> (\<exists>req. http_request w = Some req \<and> extract_token req = [])
      \<or> \<not> can_bind (call_context w)"
    by auto
  then show "call_context (on_request_state w) = call_context w"
    and "http_request (on_request_state w) = http_request w"
    and "ambient_context (on_request_state w) = ambient_context w"
    by (rule on_request_state_no_write)+
qed

theorem credential_write_witness:
  "map_option (\<lambda>st. attrs st ''api_key'')
     (case call_context (on_request_state (world_of (Attr (state_of Map.empty)) (Some bearer_request) None))
      of Attr st \<Rightarrow> Some st | _ \<Rightarrow> None) = Some (Some (PyStr ''abc123''))
   \<and> http_request (on_request_state (world_of (Attr (state_of Map.empty)) (Some bearer_request) None)) =
     Some bearer_request
   \<and> call_context (on_request_state (world_of NoAttr (Some api_key_request) None)) = NoAttr
   \<and> map_option (\<lambda>r. req_state r ''api_key'')
       (http_request (on_request_state (world_of NoAttr (Some api_key_request) None))) =
     Some (Some (PyStr '' zzz ''))
   \<and> call_context (on_request_state (world_of (Attr (state_of Map.empty)) (Some bare_request) None)) =
     Attr (state_of Map.empty)
   \<and> http_request (on_request_state (world_of (Attr (state_of Map.empty)) (Some bare_request) None)) =
     Some bare_request
   \<and> http_request (on_request_state (world_of (Attr (state_of Map.empty)) None None)) = None
   \<and> call_context (on_request_state (world_of (Attr (frozen_state Map.empty)) (Some bearer_request) None)) =
     Attr (frozen_state Map.empty)
   \<and> http_request (on_request_state (world_of (Attr (frozen_state Map.empty)) (Some bearer_request) None)) =
     Some bearer_request
   \<and> http_request (on_request_state (world_of (AttrRaises (Exn ''boom'')) (Some bearer_request) None)) =
     Some bearer_request"
proof -
  have 1: "map_option (\<lambda>st. attrs st ''api_key'')
     (case call_context (on_request_state (world_of (Attr (state_of Map.empty)) (Some bearer_request) None))
      of Attr st \<Rightarrow> Some st | _ \<Rightarrow> None) = Some (Some (PyStr ''abc123''))
   \<and> http_request (on_request_state (world_of (Attr (state_of Map.empty)) (Some bearer_request) None)) =
     Some bearer_request"
    using credential_write [of "world_of (Attr (state_of Map.empty)) (Some bearer_request) None"
        bearer_request "state_of Map.empty"]
    by (simp add: sample_tokens)
  have 2: "call_context (on_request_state (world_of NoAttr (Some api_key_request) None)) = NoAttr
   \<and> map_option (\<lambda>r. req_state r ''api_key'')
       (http_request (on_request_state (world_of NoAttr (Some api_key_request) None))) =
     Some (Some (PyStr '' zzz ''))"
    using credential_write [of "world_of NoAttr (Some api_key_request) None"
        api_key_request "state_of Map.empty"]
    by (simp add: sample_tokens)
  have 3: "call_context (on_request_state (world_of (Attr (state_of Map.empty)) (Some bare_request) None)) =
     Attr (state_of Map.empty)
   \<and> http_request (on_request_state (world_of (Attr (state_of Map.empty)) (Some bare_request) None)) =
     Some bare_request"
    using credential_write [of "world_of (Attr (state_of Map.empty)) (Some bare_request) None"
        bare_request "state_of Map.empty"]
    by (simp add: sample_tokens)
  have 4: "http_request (on_request_state (world_of (Attr (state_of Map.empty)) None None)) = None"
    using credential_write [of "world_of (Attr (state_of Map.empty)) None None" bare_request
        "state_of Map.empty"]
    by simp
  have 5: "call_context (on_request_state (world_of (Attr (frozen_state Map.empty)) (Some bearer_request) None)) =
     Attr (frozen_state Map.empty)
   \<and> http_request (on_request_state (world_of (Attr (frozen_state Map.empty)) (Some bearer_request) None)) =
     Some bearer_request"
    using credential_write [of "world_of (Attr (frozen_state Map.empty)) (Some bearer_request) None"
        bearer_request "state_of Map.empty"]
    by simp
  have 6: "http_request (on_request_state (world_of (AttrRaises (Exn ''boom'')) (Some bearer_request) None)) =
     Some bearer_request"
    using credential_write [of "world_of (AttrRaises (Exn ''boom'')) (Some bearer_request) None"
        bearer_request "state_of Map.empty"]
    by simp
  from 1 2 3 4 5 6 show ?thesis by blast
qed

section \<open>The interceptor never blocks the call\<close>

text \<open>
  Claim C6. Whatever the world, \<^verbatim>\<open>on_request\<close> ends by calling \<^verbatim>\<open>call_next\<close>, and
  its result is the result of that call. An exception inside the \<^verbatim>\<open>try\<close> is caught
  and logged at debug level: that is what happens when there is no HTTP request to read
  (\<^verbatim>\<open>get_http_request()\<close> raises), when probing the context raises, and when the
  context's state object refuses the assignment. The call then goes on with every store
  as it was, so without a credential bound by this run.
\<close>

theorem interceptor_never_blocks:
  "on_request call_next w = call_next (on_request_state w)
   \<and> (http_request w = None \<longrightarrow>
        on_request_try w = Inl (Exn ''No active HTTP request found.'', w) \<and>
        on_request_state w = log_to DEBUG (Could_not_extract (Exn ''No active HTTP request found.'')) w)
   \<and> (http_request w = Some req \<and> extract_token req \<noteq> [] \<and> call_context w = AttrRaises e \<longrightarrow>
        (\<exists>w'. on_request_try w = Inl (e, w')))
   \<and> (http_request w = Some req \<and> extract_token req \<noteq> [] \<and> call_context w = Attr st \<and>
       refuses st = Some e \<longrightarrow>
        (\<exists>w'. on_request_try w = Inl (e, w')))
   \<and> (on_request_try w = Inl (e, w') \<longrightarrow>
        on_request_state w = log_to DEBUG (Could_not_extract e) w' \<and>
        call_context (on_request_state w) = call_context w \<and>
        http_request (on_request_state w) = http_request w \<and>
        ambient_context (on_request_state w) = ambient_context w)"
proof (intro conjI impI; (elim conjE)?)
  show "on_request call_next w = call_next (on_request_state w)"
    by (simp add: on_request_def)
next
  assume "http_request w = None"
  then show "on_request_try w = Inl (Exn ''No active HTTP request found.'', w)"
    and "on_request_state w = log_to DEBUG (Could_not_extract (Exn ''No active HTTP request found.'')) w"
    by (simp_all add: on_request_state_def on_request_try_def get_http_request_def)
next
  assume "http_request w = Some req" "extract_token req \<noteq> []" "call_context w = AttrRaises e"
  then show "\<exists>w'. on_request_try w = Inl (e, w')"
    by (simp add: on_request_try_def get_http_request_def log_to_def Let_def)
next
  assume "http_request w = Some req" "extract_token req \<noteq> []" "call_context w = Attr st"
    "refuses st = Some e"
  then show "\<exists>w'. on_request_try w = Inl (e, w')"
    by (simp add: on_request_try_def get_http_request_def log_to_def Let_def)
next
  assume t: "on_request_try w = Inl (e, w')"
  then show s: "on_request_state w = log_to DEBUG (Could_not_extract e) w'"
    by (simp add: on_request_state_def)
  from on_request_try_failure [OF t] s
  show "call_context (on_request_state w) = call_context w"
    and "http_request (on_request_state w) = http_request w"
    and "ambient_context (on_request_state w) = ambient_context w"
    by (simp_all add: log_to_def)
qed

theorem interceptor_never_blocks_witness:
  "on_request get_api_info (world_of NoAttr None None) =
     get_api_info (log_to DEBUG (Could_not_extract (Exn ''No active HTTP request found.''))
                     (world_of NoAttr None None))
   \<and> on_request_try (world_of NoAttr None None) =
       Inl (Exn ''No active HTTP request found.'', world_of NoAttr None None)
   \<and> call_context (on_request_state (world_of NoAttr None None)) = NoAttr
   \<and> http_request (on_request_state (world_of NoAttr None None)) = None
   \<and> (\<exists>w'. on_request_try (world_of (AttrRaises (Exn ''boom'')) (Some bearer_request) None) =
             Inl (Exn ''boom'', w'))
   \<and> (\<exists>w'. on_request_try (world_of (Attr (frozen_state Map.empty)) (Some bearer_request) None) =
             Inl (Exn ''AttributeError'', w'))"
proof -
  have 1: "on_request get_api_info (world_of NoAttr None None) =
     get_api_info (log_to DEBUG (Could_not_extract (Exn ''No active HTTP request found.''))
                     (world_of NoAttr None None))
   \<and> on_request_try (world_of NoAttr None None) =
       Inl (Exn ''No active HTTP request found.'', world_of NoAttr None None)"
    using interceptor_never_blocks [where call_next = get_api_info
        and w = "world_of NoAttr None None" and req = bearer_request and e = "Exn ''boom''"
        and st = "state_of Map.empty" and w' = "world_of NoAttr None None"]
    by simp
  then have t: "on_request_try (world_of NoAttr None None) =
       Inl (Exn ''No active HTTP request found.'', world_of NoAttr None None)"
    by simp
  have 2: "call_context (on_request_state (world_of NoAttr None None)) = NoAttr
   \<and> http_request (on_request_state (world_of NoAttr None None)) = None"
    using t interceptor_never_blocks [where call_next = get_api_info
        and w = "world_of NoAttr None None" and req = bearer_request
        and e = "Exn ''No active HTTP request found.''"
        and st = "state_of Map.empty" and w' = "world_of NoAttr None None"]
    by (simp add: log_to_def)
  have 3: "\<exists>w'. on_request_try (world_of (AttrRaises (Exn ''boom'')) (Some bearer_request) None) =
             Inl (Exn ''boom'', w')"
    using interceptor_never_blocks [where call_next = get_api_info
        and w = "world_of (AttrRaises (Exn ''boom'')) (Some bearer_request) None"
        and req = bearer_request and e = "Exn ''boom''"
        and st = "state_of Map.empty" and w' = "world_of NoAttr None None"]
    by (simp add: sample_tokens)
  have 4: "\<exists>w'. on_request_try (world_of (Attr (frozen_state Map.empty)) (Some bearer_request) None) =
             Inl (Exn ''AttributeError'', w')"
    using interceptor_never_blocks [where call_next = get_api_info
        and w = "world_of (Attr (frozen_state Map.empty)) (Some bearer_request) None"
        and req = bearer_request and e = "Exn ''AttributeError''"
        and st = "frozen_state Map.empty" and w' = "world_of NoAttr None None"]
    by (simp add: sample_tokens)
  from 1 2 3 4 show ?thesis by blast
qed

section \<open>The authentication status \<^verbatim>\<open>get_api_info\<close> reports\<close>

text \<open>
  Claim C9. \<^verbatim>\<open>get_api_info\<close> always returns its dictionary, and the \<^verbatim>\<open>auth_status\<close>
  in it follows the truth value of what the resolver returned for the call's context:
  \<^verbatim>\<open>authenticated\<close> for a credential, \<^verbatim>\<open>not authenticated\<close> for \<^verbatim>\<open>None\<close>. Behind
  the interceptor, in a call that starts with no credential bound anywhere, the status is
  \<^verbatim>\<open>authenticated\<close> exactly when the resolver returns something other than
  \<^verbatim>\<open>None\<close>: it is so when the headers carry a credential (and the interceptor can
  bind it), and it is \<^verbatim>\<open>not authenticated\<close> when they carry none.
\<close>

theorem get_api_info_auth_status:
  "map_of (fst (get_api_info w)) ''auth_status'' =
     Some (PyStr (if truthy (fst (get_session_api_key (call_context w) w))
                  then ''authenticated'' else ''not authenticated''))
   \<and> (s \<noteq> [] \<and> fst (get_session_api_key (call_context w) w) = PyStr s \<longrightarrow>
        map_of (fst (get_api_info w)) ''auth_status'' = Some (PyStr ''authenticated''))
   \<and> (fst (get_session_api_key (call_context w) w) = PyNone \<longrightarrow>
        map_of (fst (get_api_info w)) ''auth_status'' = Some (PyStr ''not authenticated''))
   \<and> (no_credential_bound (call_context w) w \<longrightarrow>
        (map_of (fst (on_request get_api_info w)) ''auth_status'' = Some (PyStr ''authenticated'')) =
        (resolved_credential w \<noteq> PyNone))
   \<and> (http_request w = Some req \<and> extract_token req \<noteq> [] \<and> can_bind (call_context w) \<longrightarrow>
        map_of (fst (on_request get_api_info w)) ''auth_status'' = Some (PyStr ''authenticated''))
   \<and> (no_credential_bound (call_context w) w \<and> http_request w = Some req \<and> extract_token req = [] \<longrightarrow>
        map_of (fst (on_request get_api_info w)) ''auth_status'' = Some (PyStr ''not authenticated''))"
proof -
  have o: "map_of (fst (on_request get_api_info w)) ''auth_status'' =
      Some (PyStr (if truthy (resolved_credential w)
                   then ''authenticated'' else ''not authenticated''))"
    by (simp add: on_request_def auth_status_value resolved_credential_def)
  show ?thesis
  proof (intro conjI impI; (elim conjE)?)
    show "map_of (fst (get_api_info w)) ''auth_status'' =
       Some (PyStr (if truthy (fst (get_session_api_key (call_context w) w))
                  then ''authenticated'' else ''not authenticated''))"
      by (rule auth_status_value)
  next
    assume "s \<noteq> []" "fst (get_session_api_key (call_context w) w) = PyStr s"
    then show "map_of (fst (get_api_info w)) ''auth_status'' = Some (PyStr ''authenticated'')"
      by (simp add: auth_status_value)
  next
    assume "fst (get_session_api_key (call_context w) w) = PyNone"
    then show "map_of (fst (get_api_info w)) ''auth_status'' = Some (PyStr ''not authenticated'')"
      by (simp add: auth_status_value)
  next
    assume "no_credential_bound (call_context w) w"
    from resolved_credential_cases [OF this]
    show "(map_of (fst (on_request get_api_info w)) ''auth_status'' = Some (PyStr ''authenticated'')) =
        (resolved_credential w \<noteq> PyNone)"
      by (auto simp add: o)
  next
    assume "http_request w = Some req" "extract_token req \<noteq> []" "can_bind (call_context w)"
    then show "map_of (fst (on_request get_api_info w)) ''auth_status'' = Some (PyStr ''authenticated'')"
      by (simp add: o resolved_credential_found)
  next
    assume "no_credential_bound (call_context w) w" "http_request w = Some req" "extract_token req = []"
    then show "map_of (fst (on_request get_api_info w)) ''auth_status'' = Some (PyStr ''not authenticated'')"
      by (simp add: o resolved_credential_absent)
  qed
qed

theorem get_api_info_auth_status_witness:
  "extract_token bearer_request = ''abc123''
   \<and> map_of (fst (on_request get_api_info (world_of NoAttr (Some bearer_request) None))) ''auth_status'' =
       Some (PyStr ''authenticated'')
   \<and> no_credential_bound NoAttr (world_of NoAttr (Some bare_request) None)
   \<and> extract_token bare_request = []
   \<and> map_of (fst (on_request get_api_info (world_of NoAttr (Some bare_request) None))) ''auth_status'' =
       Some (PyStr ''not authenticated'')
   \<and> resolved_credential (world_of NoAttr (Some bare_request) None) = PyNone
   \<and> fst (get_session_api_key NoAttr (world_of NoAttr None None)) = PyNone
   \<and> map_of (fst (get_api_info (world_of NoAttr None None))) ''auth_status'' =
       Some (PyStr ''not authenticated'')
   \<and> map_of (fst (get_api_info (world_of (Attr (state_of [''api_key'' \<mapsto> PyStr ''k''])) None None))) ''auth_status'' =
       Some (PyStr ''authenticated'')"
proof -
  have 1: "map_of (fst (on_request get_api_info (world_of NoAttr (Some bearer_request) None))) ''auth_status'' =
       Some (PyStr ''authenticated'')"
    using get_api_info_auth_status [of "world_of NoAttr (Some bearer_request) None" "''abc123''"
        bearer_request]
    by (simp add: sample_tokens)
  have n: "no_credential_bound NoAttr (world_of NoAttr (Some bare_request) None)"
    by (simp add: no_credential_bound_def bare_request_def)
  have 2: "map_of (fst (on_request get_api_info (world_of NoAttr (Some bare_request) None))) ''auth_status'' =
       Some (PyStr ''not authenticated'')"
    using n get_api_info_auth_status [of "world_of NoAttr (Some bare_request) None" "''abc123''"
        bare_request]
    by (simp add: sample_tokens)
  have 3: "resolved_credential (world_of NoAttr (Some bare_request) None) = PyNone"
    using n 2 get_api_info_auth_status [of "world_of NoAttr (Some bare_request) None" "''abc123''"
        bare_request]
    by simp
  have a: "fst (get_session_api_key NoAttr (world_of NoAttr None None)) = PyNone"
    by (rule resolver_absent) (simp add: no_credential_bound_def)
  have 4: "map_of (fst (get_api_info (world_of NoAttr None None))) ''auth_status'' =
       Some (PyStr ''not authenticated'')"
    using a get_api_info_auth_status [of "world_of NoAttr None None" "''k''" bare_request]
    by simp
  have b: "fst (get_session_api_key (Attr (state_of [''api_key'' \<mapsto> PyStr ''k'']))
      (world_of (Attr (state_of [''api_key'' \<mapsto> PyStr ''k''])) None None)) = PyStr ''k''"
    by (simp add: resolver_context_hit)
  have 5: "map_of (fst (get_api_info (world_of (Attr (state_of [''api_key'' \<mapsto> PyStr ''k''])) None None))) ''auth_status'' =
       Some (PyStr ''authenticated'')"
    using b get_api_info_auth_status [of "world_of (Attr (state_of [''api_key'' \<mapsto> PyStr ''k''])) None None"
        "''k''" bare_request]
    by simp
  from 1 n 2 3 a 4 5 sample_tokens(1,4) show ?thesis by blast
qed

end
